theory Spec2Isabelle
  imports Main "HOL-Library.Sublist" "HOL-Library.Word"
begin

section \<open>C strings and the Python objects the module touches\<close>

text \<open>
  A \<^verbatim>\<open>char*\<close> argument is modelled by the characters before its terminating NUL, so a
  C string is a \<^typ>\<open>string\<close> without the terminator. \<^verbatim>\<open>strstr\<close> returns a pointer to
  the first occurrence of the needle (here: the rest of the haystack from there) or NULL
  (\<open>None\<close>); an empty needle is found at the start of every haystack.
\<close>

fun starts_with :: "string \<Rightarrow> string \<Rightarrow> bool" where
  "starts_with s [] = True"
| "starts_with [] (n # ns) = False"
| "starts_with (c # cs) (n # ns) = (c = n \<and> starts_with cs ns)"

fun strstr :: "string \<Rightarrow> string \<Rightarrow> string option" where
  "strstr [] needle = (if needle = [] then Some [] else None)"
| "strstr (c # cs) needle =
     (if starts_with (c # cs) needle then Some (c # cs) else strstr cs needle)"

text \<open>
  The Python objects that reach this module: \<open>str\<close> objects (their code points, of which
  those from 128 on are outside ASCII), lists, booleans and \<open>None\<close>.
\<close>

datatype PyObject =
    PyUnicode string
  | PyList "PyObject list"
  | PyBool bool
  | PyNone

fun is_ascii :: "string \<Rightarrow> bool" where
  "is_ascii [] = True"
| "is_ascii (c # cs) = (of_char c < (128::nat) \<and> is_ascii cs)"

text \<open>
  \<^verbatim>\<open>PyUnicode_AsASCIIString\<close> yields a bytes object, or NULL (\<open>None\<close>) when its argument
  is not a \<open>str\<close> or has a code point outside ASCII. \<^verbatim>\<open>PyBytes_AsString\<close> hands out the
  buffer of a bytes object; read as a C string it ends at the first NUL.
\<close>

fun PyUnicode_AsASCIIString :: "PyObject \<Rightarrow> string option" where
  "PyUnicode_AsASCIIString (PyUnicode s) = (if is_ascii s then Some s else None)"
| "PyUnicode_AsASCIIString (PyList xs) = None"
| "PyUnicode_AsASCIIString (PyBool b) = None"
| "PyUnicode_AsASCIIString PyNone = None"

definition PyBytes_AsString :: "string \<Rightarrow> string" where
  "PyBytes_AsString b = takeWhile (\<lambda>c. c \<noteq> CHR 0x00) b"



section \<open>TraceConfig\<close>

text \<open>
  The ways the process can die instead of returning: the explicit \<^verbatim>\<open>abort()\<close> of
  \<^verbatim>\<open>should_trace\<close>, and undefined behaviour on a NULL pointer or a bad size in the
  constructor, which is modelled as a crash.
\<close>

datatype fatal = Abort | Crash

record TraceConfig =
  items :: "string list"
  scalene_base_path :: string
  owner :: "PyObject option"
  path_owner :: "PyObject option"
  profile_all :: bool

text \<open>
  The constructor's loop pushes \<^verbatim>\<open>PyBytes_AsString(PyUnicode_AsASCIIString(item))\<close> for
  every item. When the conversion of an item yields NULL, \<^verbatim>\<open>PyBytes_AsString\<close> is
  applied to NULL: \<open>None\<close> below.
\<close>

fun convert_items :: "PyObject list \<Rightarrow> string list option" where
  "convert_items [] = Some []"
| "convert_items (item # rest) =
     (case PyUnicode_AsASCIIString item of
        None \<Rightarrow> None
      | Some b \<Rightarrow>
          (case convert_items rest of
             None \<Rightarrow> None
           | Some its \<Rightarrow> Some (PyBytes_AsString b # its)))"

definition TraceConfig_new :: "PyObject \<Rightarrow> PyObject \<Rightarrow> bool \<Rightarrow> fatal + TraceConfig" where
  "TraceConfig_new list_wrapper base_path profile_all_b =
     (case list_wrapper of
        PyList elems \<Rightarrow>
          (case convert_items elems of
             None \<Rightarrow> Inl Crash
           | Some its \<Rightarrow>
               (case PyUnicode_AsASCIIString base_path of
                  None \<Rightarrow> Inl Crash
                | Some b \<Rightarrow>
                    Inr \<lparr>items = its,
                         scalene_base_path = PyBytes_AsString b,
                         owner = Some list_wrapper,
                         path_owner = Some base_path,
                         profile_all = profile_all_b\<rparr>))
      | PyUnicode s \<Rightarrow> Inl Crash
      | PyBool b \<Rightarrow> Inl Crash
      | PyNone \<Rightarrow> Inl Crash)"

text \<open>The \<^verbatim>\<open>for (char* traceable : items)\<close> loop: does it reach \<^verbatim>\<open>return true\<close>?\<close>

fun items_loop :: "string \<Rightarrow> string list \<Rightarrow> bool" where
  "items_loop filename [] = False"
| "items_loop filename (traceable # rest) =
     (if strstr filename traceable \<noteq> None then True else items_loop filename rest)"

text \<open>
  \<^verbatim>\<open>realpath\<close> reads the file system, so it is a parameter: \<open>None\<close> when it fails,
  otherwise the resolved path.
\<close>

definition should_trace ::
  "(string \<Rightarrow> string option) \<Rightarrow> TraceConfig \<Rightarrow> string \<Rightarrow> fatal + bool" where
  "should_trace realpath cfg filename =
     (if strstr filename ''site-packages'' \<noteq> None \<or> strstr filename ''/lib/python'' \<noteq> None
      then Inr False
      else if (case filename of [] \<Rightarrow> False | c # cs \<Rightarrow> c = CHR ''<'')
              \<and> strstr filename ''<ipython'' \<noteq> None
      then Inr True
      else if strstr filename ''scalene/scalene'' \<noteq> None
      then Inr False
      else if owner cfg \<noteq> None \<and> items_loop filename (items cfg)
      then Inr True
      else (case realpath filename of
              None \<Rightarrow> Inl Abort
            | Some resolved_path \<Rightarrow>
                Inr (strstr resolved_path (scalene_base_path cfg) \<noteq> None)))"

text \<open>
  The state that outlives a call: the static \<^verbatim>\<open>TraceConfig::_instance\<close> (initially 0,
  here \<open>None\<close>), whether the global \<^verbatim>\<open>p_whereInPython\<close> has been pointed at
  \<^verbatim>\<open>whereInPython\<close>, and the interpreter's pending exception. The class has no
  destructor, so \<^verbatim>\<open>delete _instance\<close> only gives the old object's storage back; in the
  model the old value is overwritten. The mutex around both accessors orders concurrent
  calls and has no effect on a single one.
\<close>

record module_state =
  TraceConfig_instance :: "TraceConfig option"
  p_whereInPython_set :: bool
  PyErr :: "string option"

definition initial_state :: module_state where
  "initial_state = \<lparr>TraceConfig_instance = None, p_whereInPython_set = False, PyErr = None\<rparr>"


definition getInstance :: "module_state \<Rightarrow> TraceConfig option" where
  "getInstance st = TraceConfig_instance st"

section \<open>The interpreter state the resolver reads\<close>

text \<open>
  A frame carries its code object's \<^verbatim>\<open>co_filename\<close>, what \<^verbatim>\<open>PyFrame_GetLineNumber\<close>
  and \<^verbatim>\<open>PyFrame_GetLasti\<close> return for it (both C \<^verbatim>\<open>int\<close>, 32 bits), and \<^verbatim>\<open>f_back\<close>, the
  caller's frame or NULL. A value of this type is a finite chain of frames.
\<close>

datatype PyFrameObject =
  Frame (co_filename: PyObject)
        (PyFrame_GetLineNumber: "32 word")
        (PyFrame_GetLasti: "32 word")
        (PyFrame_GetBack: "PyFrameObject option")

record PyThreadState =
  thread_id :: "64 word"
  thread_frame :: "PyFrameObject option"

text \<open>
  What the interpreter answers once the GIL is held: whether it is initialized, the thread
  state of the calling thread (NULL when it has none), and the thread states of the main
  interpreter in the order of \<^verbatim>\<open>PyInterpreterState_ThreadHead\<close> and
  \<^verbatim>\<open>PyThreadState_Next\<close>.
\<close>

record runtime =
  Py_IsInitialized :: bool
  PyGILState_GetThisThreadState :: "PyThreadState option"
  PyInterpreterState_ThreadHead :: "PyThreadState list"

text \<open>The scan of \<^verbatim>\<open>findMainPythonThread_frame\<close>, with \<^verbatim>\<open>main\<close> as accumulator.\<close>

fun findMain_loop :: "PyThreadState option \<Rightarrow> PyThreadState list \<Rightarrow> PyThreadState option" where
  "findMain_loop main [] = main"
| "findMain_loop main (t # rest) =
     findMain_loop
       (case main of
          None \<Rightarrow> Some t
        | Some m \<Rightarrow> (if thread_id m > thread_id t then Some t else Some m))
       rest"

definition findMainPythonThread_frame :: "runtime \<Rightarrow> PyFrameObject option" where
  "findMainPythonThread_frame rt =
     (case findMain_loop None (PyInterpreterState_ThreadHead rt) of
        None \<Rightarrow> None
      | Some main \<Rightarrow> thread_frame main)"

section \<open>whereInPython\<close>

text \<open>
  The three reference parameters of \<^verbatim>\<open>whereInPython\<close> are passed in and handed back as a
  \<open>location\<close>. A call either returns its \<^verbatim>\<open>int\<close> with the parameters as it left them, or
  the process is aborted inside \<^verbatim>\<open>should_trace\<close>.
\<close>

record location =
  filename :: string
  lineno :: "32 word"
  bytei :: "32 word"

definition BOGUS :: location where
  "BOGUS = \<lparr>filename = ''<BOGUS>'', lineno = 1, bytei = 0\<rparr>"

datatype result = Returned int location | Aborted

text \<open>
  To state what the walk looks at, every run carries a trace: \<open>Decode\<close> for each
  \<^verbatim>\<open>co_filename\<close> handed to \<^verbatim>\<open>PyUnicode_AsASCIIString\<close>, \<open>Query\<close> for each call of
  \<^verbatim>\<open>should_trace\<close>, in the order they happen.
\<close>

datatype event = Decode PyObject | Query string

text \<open>
  One pass through the body of the \<^verbatim>\<open>while\<close> loop, for the frame the loop variable points
  to: either the function returns (\<open>Done\<close>), or the loop goes on with the given value of
  the loop variable (\<open>Continue\<close>). The \<^verbatim>\<open>continue\<close> statement for an empty file name
  jumps to the loop condition and leaves the variable as it is; only the end of the body
  assigns \<^verbatim>\<open>PyFrame_GetBack(frame)\<close>. The model is of a CPython build, where
  \<^verbatim>\<open>PyPy_FatalError\<close> is not defined.
\<close>

datatype step = Done result | Continue "PyFrameObject option"

definition loop_body ::
  "(string \<Rightarrow> string option) \<Rightarrow> TraceConfig \<Rightarrow> location \<Rightarrow> PyFrameObject
     \<Rightarrow> step \<times> event list" where
  "loop_body realpath traceConfig out frame =
     (case PyUnicode_AsASCIIString (co_filename frame) of
        None \<Rightarrow> (Done (Returned 0 out), [Decode (co_filename frame)])
      | Some co \<Rightarrow>
          (let filenameStr = PyBytes_AsString co in
           if length filenameStr = 0
           then (Continue (Some frame), [Decode (co_filename frame)])
           else if strstr filenameStr ''<'' = None \<and> strstr filenameStr ''/python'' = None
                   \<and> strstr filenameStr ''scalene/scalene'' = None
           then
             (case should_trace realpath traceConfig filenameStr of
                Inl e \<Rightarrow> (Done Aborted, [Decode (co_filename frame), Query filenameStr])
              | Inr traced \<Rightarrow>
                  if traced
                  then (Done (Returned 1 \<lparr>filename = filenameStr,
                                          lineno = PyFrame_GetLineNumber frame,
                                          bytei = PyFrame_GetLasti frame\<rparr>),
                        [Decode (co_filename frame), Query filenameStr])
                  else (Continue (PyFrame_GetBack frame),
                        [Decode (co_filename frame), Query filenameStr]))
           else (Continue (PyFrame_GetBack frame), [Decode (co_filename frame)])))"

text \<open>
  The \<^verbatim>\<open>while (frame != nullptr)\<close> loop. Nothing in it bounds the number of passes, so the
  loop is a partial function: \<open>None\<close> is a walk that never returns.
\<close>

partial_function (option) walk ::
  "(string \<Rightarrow> string option) \<Rightarrow> TraceConfig \<Rightarrow> location \<Rightarrow> event list
     \<Rightarrow> PyFrameObject option \<Rightarrow> (result \<times> event list) option" where
  "walk realpath traceConfig out tr frame =
     (case frame of
        None \<Rightarrow> Some (Returned 0 out, tr)
      | Some fr \<Rightarrow>
          (case loop_body realpath traceConfig out fr of
             (Done r, es) \<Rightarrow> Some (r, tr @ es)
           | (Continue next_frame, es) \<Rightarrow> walk realpath traceConfig out (tr @ es) next_frame))"

declare walk.simps [code]

text \<open>
  \<^verbatim>\<open>whereInPython\<close>, given the module state and the values the caller's variables hold
  on entry. Taking and releasing the GIL changes nothing that is read here and is not
  modelled.
\<close>

definition whereInPython ::
  "(string \<Rightarrow> string option) \<Rightarrow> runtime \<Rightarrow> module_state \<Rightarrow> location
     \<Rightarrow> (result \<times> event list) option" where
  "whereInPython realpath rt st out =
     (if \<not> Py_IsInitialized rt then Some (Returned 0 out, [])
      else
        (let threadState = PyGILState_GetThisThreadState rt;
             frame = (case threadState of None \<Rightarrow> None | Some ts \<Rightarrow> thread_frame ts);
             frame = (if frame = None then findMainPythonThread_frame rt else frame)
         in case getInstance st of
              None \<Rightarrow> Some (Returned 0 BOGUS, [])
            | Some traceConfig \<Rightarrow> walk realpath traceConfig BOGUS [] frame))"

section \<open>register_files_to_profile\<close>


section \<open>Frame chains and example environments\<close>

text \<open>The frames of a chain, innermost first, and the file name the walk reads off a frame.\<close>

fun chain :: "PyFrameObject \<Rightarrow> PyFrameObject list" where
  "chain (Frame c l i b) = Frame c l i b # (case b of None \<Rightarrow> [] | Some caller \<Rightarrow> chain caller)"

definition frame_identifier :: "PyFrameObject \<Rightarrow> string option" where
  "frame_identifier fr = map_option PyBytes_AsString (PyUnicode_AsASCIIString (co_filename fr))"

text \<open>
  Two file systems for concrete runs: one where \<^verbatim>\<open>realpath\<close> fails on every path, and
  one without symbolic links where every path given is already canonical.
\<close>

definition realpath_fails :: "string \<Rightarrow> string option" where
  "realpath_fails p = None"

definition realpath_same :: "string \<Rightarrow> string option" where
  "realpath_same p = Some p"

text \<open>The filter of the specification's scenarios, as the constructor builds it.\<close>

definition myapp_config :: TraceConfig where
  "myapp_config =
     \<lparr>items = [''myapp/''],
      scalene_base_path = ''/home/u/myapp'',
      owner = Some (PyList [PyUnicode ''myapp/'']),
      path_owner = Some (PyUnicode ''/home/u/myapp''),
      profile_all = False\<rparr>"

text \<open>
  The stack of the specification's scenario, innermost frame first; a frame whose code
  object was compiled with the empty string as file name, calling into that stack; and a
  frame of a file with a \<open><\<close> inside its name.
\<close>

definition worker_stack :: PyFrameObject where
  "worker_stack =
     Frame (PyUnicode ''<frozen importlib>'') 1 2
       (Some (Frame (PyUnicode ''/usr/lib/python3.11/threading.py'') 10 4
          (Some (Frame (PyUnicode ''/home/u/myapp/worker.py'') 42 6 None))))"

definition unnamed_frame :: PyFrameObject where
  "unnamed_frame = Frame (PyUnicode []) 1 0 (Some worker_stack)"

definition bracket_frame :: PyFrameObject where
  "bracket_frame = Frame (PyUnicode ''/home/u/myapp/a<b.py'') 3 0 None"

text \<open>
  Three interpreter states: a sample taken on a native thread that has no thread state,
  with three interpreter threads; a sample taken on the interpreter's only thread while
  it runs the unnamed frame; and a process whose interpreter is not initialized.
\<close>

definition native_thread_runtime :: runtime where
  "native_thread_runtime =
     \<lparr>Py_IsInitialized = True,
      PyGILState_GetThisThreadState = None,
      PyInterpreterState_ThreadHead =
        [\<lparr>thread_id = 7, thread_frame = Some unnamed_frame\<rparr>,
         \<lparr>thread_id = 1, thread_frame = Some worker_stack\<rparr>,
         \<lparr>thread_id = 3, thread_frame = None\<rparr>]\<rparr>"

definition unnamed_runtime :: runtime where
  "unnamed_runtime =
     \<lparr>Py_IsInitialized = True,
      PyGILState_GetThisThreadState = Some \<lparr>thread_id = 1, thread_frame = Some unnamed_frame\<rparr>,
      PyInterpreterState_ThreadHead = [\<lparr>thread_id = 1, thread_frame = Some unnamed_frame\<rparr>]\<rparr>"

definition finalized_runtime :: runtime where
  "finalized_runtime =
     \<lparr>Py_IsInitialized = False,
      PyGILState_GetThisThreadState = None,
      PyInterpreterState_ThreadHead = []\<rparr>"

text \<open>
  What a caller's variables may hold before the call; the module state after a successful
  registration of the scenario's filter; and a module state with another filter in place.
\<close>

definition caller_location :: location where
  "caller_location = \<lparr>filename = ''prev.py'', lineno = 7, bytei = 3\<rparr>"

definition myapp_state :: module_state where
  "myapp_state =
     \<lparr>TraceConfig_instance = Some myapp_config, p_whereInPython_set = True, PyErr = None\<rparr>"


section \<open>Facts about the string search\<close>

lemma starts_with_prefix: "starts_with s n = prefix n s"
  by (induction s n rule: starts_with.induct) auto

lemma strstr_None_iff: "(strstr haystack needle = None) = (\<not> sublist needle haystack)"
proof (induction haystack)
  case Nil
  show ?case by simp
next
  case (Cons c cs)
  show ?case
  proof (cases "starts_with (c # cs) needle")
    case True
    then have "sublist needle (c # cs)"
      by (simp add: starts_with_prefix sublist_Cons_right)
    with True show ?thesis by simp
  next
    case False
    then have "sublist needle (c # cs) = sublist needle cs"
      by (simp add: starts_with_prefix sublist_Cons_right)
    with False Cons show ?thesis by simp
  qed
qed

lemma strstr_found_iff: "(strstr haystack needle \<noteq> None) = sublist needle haystack"
  by (simp add: strstr_None_iff)

lemma items_loop_iff: "items_loop path its = (\<exists>t \<in> set its. sublist t path)"
  by (induction its) (auto simp: strstr_None_iff)

section \<open>Facts about the constructor\<close>

lemma TraceConfig_new_owner:
  "TraceConfig_new list_wrapper base_path pa = Inr cfg \<Longrightarrow> owner cfg = Some list_wrapper"
  by (auto simp: TraceConfig_new_def split: PyObject.splits option.splits)

lemma first_char_prefix: "(case path of [] \<Rightarrow> False | c # cs \<Rightarrow> c = CHR ''<'') = prefix ''<'' path"
  by (cases path) auto

lemma myapp_config_built:
  "TraceConfig_new (PyList [PyUnicode ''myapp/'']) (PyUnicode ''/home/u/myapp'') False
   = Inr myapp_config"
  by (simp add: TraceConfig_new_def myapp_config_def PyBytes_AsString_def)

section \<open>The decision of the filter\<close>

text \<open>
  In the statements below a path "contains" a fragment when the fragment is a
  \<^const>\<open>sublist\<close> of it, and "begins with" a character when that character is a
  \<^const>\<open>prefix\<close>; neither mentions the search \<^const>\<open>strstr\<close> of the code.
\<close>

text \<open>
  Claim C2. A path that contains \<^verbatim>\<open>site-packages\<close> or \<^verbatim>\<open>/lib/python\<close> is rejected:
  \<^const>\<open>should_trace\<close> returns false whatever the include list, the base path and
  the file system are, also when the path contains a fragment of the include list. The
  next two rules come before the include list as well: a path that rule 1 does not match,
  begins with \<open><\<close> and contains \<^verbatim>\<open><ipython\<close> is accepted, and a path that rules 1 and 2
  do not match and that contains \<^verbatim>\<open>scalene/scalene\<close> is rejected, whatever the include
  list, the base path and the file system are.
\<close>

theorem should_trace_rules_1_to_3_outrank_include_list:
  "(sublist ''site-packages'' path \<or> sublist ''/lib/python'' path
      \<longrightarrow> should_trace realpath cfg path = Inr False)
   \<and> (\<not> sublist ''site-packages'' path \<and> \<not> sublist ''/lib/python'' path
        \<and> prefix ''<'' path \<and> sublist ''<ipython'' path
      \<longrightarrow> should_trace realpath cfg path = Inr True)
   \<and> (\<not> sublist ''site-packages'' path \<and> \<not> sublist ''/lib/python'' path
        \<and> \<not> (prefix ''<'' path \<and> sublist ''<ipython'' path)
        \<and> sublist ''scalene/scalene'' path
      \<longrightarrow> should_trace realpath cfg path = Inr False)"
  by (simp add: should_trace_def strstr_None_iff first_char_prefix)

theorem should_trace_rules_1_to_3_outrank_include_list_witness:
  "items myapp_config = [''myapp/'']
   \<and> sublist ''site-packages'' ''/venv/site-packages/myapp/x.py''
   \<and> sublist ''myapp/'' ''/venv/site-packages/myapp/x.py''
   \<and> should_trace realpath_same myapp_config ''/venv/site-packages/myapp/x.py'' = Inr False
   \<and> sublist ''/lib/python'' ''/usr/lib/python3.11/myapp/x.py''
   \<and> sublist ''myapp/'' ''/usr/lib/python3.11/myapp/x.py''
   \<and> should_trace realpath_same myapp_config ''/usr/lib/python3.11/myapp/x.py'' = Inr False
   \<and> prefix ''<'' ''<ipython-input-3-scalene/scalene>''
   \<and> sublist ''<ipython'' ''<ipython-input-3-scalene/scalene>''
   \<and> sublist ''scalene/scalene'' ''<ipython-input-3-scalene/scalene>''
   \<and> should_trace realpath_fails myapp_config ''<ipython-input-3-scalene/scalene>'' = Inr True
   \<and> sublist ''scalene/scalene'' ''/home/u/myapp/scalene/scalene/x.py''
   \<and> sublist ''myapp/'' ''/home/u/myapp/scalene/scalene/x.py''
   \<and> should_trace realpath_same myapp_config ''/home/u/myapp/scalene/scalene/x.py'' = Inr False"
  using should_trace_rules_1_to_3_outrank_include_list
          [of "''/venv/site-packages/myapp/x.py''" realpath_same myapp_config]
        should_trace_rules_1_to_3_outrank_include_list
          [of "''/usr/lib/python3.11/myapp/x.py''" realpath_same myapp_config]
        should_trace_rules_1_to_3_outrank_include_list
          [of "''<ipython-input-3-scalene/scalene>''" realpath_fails myapp_config]
        should_trace_rules_1_to_3_outrank_include_list
          [of "''/home/u/myapp/scalene/scalene/x.py''" realpath_same myapp_config]
  by (simp add: myapp_config_def strstr_found_iff [symmetric])

text \<open>
  Claim C3. For a filter built by the constructor and a path that rules 1 to 3 do not
  match: if some fragment of the include list occurs in the path, the answer is true;
  if none does and \<^verbatim>\<open>realpath\<close> succeeds, the answer is whether the resolved path
  contains the base path.
\<close>

theorem should_trace_include_list_then_base_path:
  assumes built: "TraceConfig_new list_wrapper base_path pa = Inr cfg"
    and r1: "\<not> sublist ''site-packages'' path" "\<not> sublist ''/lib/python'' path"
    and r2: "\<not> (prefix ''<'' path \<and> sublist ''<ipython'' path)"
    and r3: "\<not> sublist ''scalene/scalene'' path"
  shows "((\<exists>t \<in> set (items cfg). sublist t path)
            \<longrightarrow> should_trace realpath cfg path = Inr True)
       \<and> ((\<forall>t \<in> set (items cfg). \<not> sublist t path) \<and> realpath path = Some canonical
            \<longrightarrow> should_trace realpath cfg path
                  = Inr (sublist (scalene_base_path cfg) canonical))"
  using r1 r2 r3 TraceConfig_new_owner [OF built]
  by (auto simp: should_trace_def strstr_None_iff strstr_found_iff items_loop_iff first_char_prefix)

theorem should_trace_include_list_then_base_path_witness:
  "TraceConfig_new (PyList [PyUnicode ''myapp/'']) (PyUnicode ''/home/u/myapp'') False
     = Inr myapp_config
   \<and> (\<exists>t \<in> set (items myapp_config). sublist t ''/srv/myapp/worker.py'')
   \<and> should_trace realpath_fails myapp_config ''/srv/myapp/worker.py'' = Inr True
   \<and> items myapp_config = [''myapp/'']
   \<and> \<not> sublist ''myapp/'' ''/home/u/myapp_old/b.py''
   \<and> realpath_same ''/home/u/myapp_old/b.py'' = Some ''/home/u/myapp_old/b.py''
   \<and> should_trace realpath_same myapp_config ''/home/u/myapp_old/b.py'' = Inr True
   \<and> should_trace realpath_same myapp_config ''/opt/other/b.py'' = Inr False"
proof -
  have a: "\<not> sublist ''site-packages'' ''/srv/myapp/worker.py''"
      "\<not> sublist ''/lib/python'' ''/srv/myapp/worker.py''"
      "\<not> (prefix ''<'' ''/srv/myapp/worker.py'' \<and> sublist ''<ipython'' ''/srv/myapp/worker.py'')"
      "\<not> sublist ''scalene/scalene'' ''/srv/myapp/worker.py''"
    by (simp_all add: strstr_found_iff [symmetric])
  have b: "\<not> sublist ''site-packages'' ''/home/u/myapp_old/b.py''"
      "\<not> sublist ''/lib/python'' ''/home/u/myapp_old/b.py''"
      "\<not> (prefix ''<'' ''/home/u/myapp_old/b.py'' \<and> sublist ''<ipython'' ''/home/u/myapp_old/b.py'')"
      "\<not> sublist ''scalene/scalene'' ''/home/u/myapp_old/b.py''"
    by (simp_all add: strstr_found_iff [symmetric])
  have c: "\<not> sublist ''site-packages'' ''/opt/other/b.py''"
      "\<not> sublist ''/lib/python'' ''/opt/other/b.py''"
      "\<not> (prefix ''<'' ''/opt/other/b.py'' \<and> sublist ''<ipython'' ''/opt/other/b.py'')"
      "\<not> sublist ''scalene/scalene'' ''/opt/other/b.py''"
    by (simp_all add: strstr_found_iff [symmetric])
  show ?thesis
    using should_trace_include_list_then_base_path
            [OF myapp_config_built a, of realpath_fails "''''"]
          should_trace_include_list_then_base_path
            [OF myapp_config_built b, of realpath_same "''/home/u/myapp_old/b.py''"]
          should_trace_include_list_then_base_path
            [OF myapp_config_built c, of realpath_same "''/opt/other/b.py''"]
    by (simp add: myapp_config_built myapp_config_def realpath_same_def
                  strstr_found_iff [symmetric])
qed

text \<open>
  Claim C6. For a filter built by the constructor, \<^const>\<open>should_trace\<close> aborts the
  process exactly when the path matches none of rules 1 to 4 and \<^verbatim>\<open>realpath\<close> fails;
  in every other case it returns a boolean.
\<close>

theorem should_trace_aborts_iff:
  assumes built: "TraceConfig_new list_wrapper base_path pa = Inr cfg"
  shows "((should_trace realpath cfg path = Inl Abort)
          = (\<not> (sublist ''site-packages'' path \<or> sublist ''/lib/python'' path)
             \<and> \<not> (prefix ''<'' path \<and> sublist ''<ipython'' path)
             \<and> \<not> sublist ''scalene/scalene'' path
             \<and> \<not> (\<exists>t \<in> set (items cfg). sublist t path)
             \<and> realpath path = None))
       \<and> (should_trace realpath cfg path \<noteq> Inl Abort
            \<longrightarrow> (\<exists>b. should_trace realpath cfg path = Inr b))"
  using TraceConfig_new_owner [OF built]
  by (auto simp: should_trace_def strstr_None_iff strstr_found_iff items_loop_iff first_char_prefix
           split: option.splits)

theorem should_trace_aborts_iff_witness:
  "TraceConfig_new (PyList [PyUnicode ''myapp/'']) (PyUnicode ''/home/u/myapp'') False
     = Inr myapp_config
   \<and> realpath_fails ''/opt/other/b.py'' = None
   \<and> should_trace realpath_fails myapp_config ''/opt/other/b.py'' = Inl Abort
   \<and> should_trace realpath_fails myapp_config ''/srv/myapp/worker.py'' \<noteq> Inl Abort
   \<and> should_trace realpath_same myapp_config ''/opt/other/b.py'' \<noteq> Inl Abort"
  using should_trace_aborts_iff [OF myapp_config_built, of realpath_fails "''/opt/other/b.py''"]
        should_trace_aborts_iff [OF myapp_config_built, of realpath_fails "''/srv/myapp/worker.py''"]
        should_trace_aborts_iff [OF myapp_config_built, of realpath_same "''/opt/other/b.py''"]
  by (simp add: myapp_config_built myapp_config_def realpath_same_def realpath_fails_def
                strstr_found_iff [symmetric])

text \<open>
  Claim C8. Two filters that agree on every field but \<^const>\<open>profile_all\<close> give the
  same answer (or the same abort) on every path and file system.
\<close>

theorem should_trace_ignores_profile_all:
  assumes "items c1 = items c2" "scalene_base_path c1 = scalene_base_path c2"
    and "owner c1 = owner c2" "path_owner c1 = path_owner c2"
  shows "should_trace realpath c1 path = should_trace realpath c2 path"
  by (simp only: should_trace_def assms(1-3))

theorem should_trace_ignores_profile_all_witness:
  "profile_all myapp_config \<noteq> profile_all (myapp_config\<lparr>profile_all := True\<rparr>)
   \<and> should_trace realpath_same myapp_config ''/home/u/myapp_old/b.py''
       = should_trace realpath_same (myapp_config\<lparr>profile_all := True\<rparr>) ''/home/u/myapp_old/b.py''"
  using should_trace_ignores_profile_all
          [of myapp_config "myapp_config\<lparr>profile_all := True\<rparr>" realpath_same
              "''/home/u/myapp_old/b.py''"]
  by (simp add: myapp_config_def)

section \<open>The loop body\<close>

text \<open>
  Claim C4, as amended. For a frame whose file name decodes to a nonempty string, the
  body moves on to the caller's frame without calling \<^const>\<open>should_trace\<close> exactly
  when the name contains \<open><\<close> (anywhere in it), or contains \<^verbatim>\<open>/python\<close>, or
  contains \<^verbatim>\<open>scalene/scalene\<close>; for every other such frame it calls
  \<^const>\<open>should_trace\<close> on the name.
\<close>

theorem loop_body_skips_without_query_iff:
  assumes "frame_identifier fr = Some s" and "s \<noteq> []"
  shows "((loop_body realpath cfg out fr
             = (Continue (PyFrame_GetBack fr), [Decode (co_filename fr)]))
          = (sublist ''<'' s \<or> sublist ''/python'' s \<or> sublist ''scalene/scalene'' s))
       \<and> (\<not> (sublist ''<'' s \<or> sublist ''/python'' s \<or> sublist ''scalene/scalene'' s)
            \<longrightarrow> snd (loop_body realpath cfg out fr) = [Decode (co_filename fr), Query s])"
  using assms
  by (auto simp: frame_identifier_def loop_body_def Let_def strstr_None_iff
           split: option.splits sum.splits)

theorem loop_body_skips_without_query_iff_witness:
  "frame_identifier bracket_frame = Some ''/home/u/myapp/a<b.py''
   \<and> sublist ''<'' ''/home/u/myapp/a<b.py''
   \<and> loop_body realpath_same myapp_config BOGUS bracket_frame
       = (Continue None, [Decode (PyUnicode ''/home/u/myapp/a<b.py'')])
   \<and> frame_identifier (Frame (PyUnicode ''/home/u/myapp/worker.py'') 42 6 None)
       = Some ''/home/u/myapp/worker.py''
   \<and> snd (loop_body realpath_same myapp_config BOGUS
             (Frame (PyUnicode ''/home/u/myapp/worker.py'') 42 6 None))
       = [Decode (PyUnicode ''/home/u/myapp/worker.py''), Query ''/home/u/myapp/worker.py'']"
proof -
  have a: "frame_identifier bracket_frame = Some ''/home/u/myapp/a<b.py''"
    by (simp add: frame_identifier_def bracket_frame_def PyBytes_AsString_def)
  have b: "frame_identifier (Frame (PyUnicode ''/home/u/myapp/worker.py'') 42 6 None)
       = Some ''/home/u/myapp/worker.py''"
    by (simp add: frame_identifier_def PyBytes_AsString_def)
  have n: "''/home/u/myapp/a<b.py'' \<noteq> []" "''/home/u/myapp/worker.py'' \<noteq> []"
    by simp_all
  show ?thesis
    using a b
      loop_body_skips_without_query_iff [OF a n(1), of realpath_same myapp_config BOGUS]
      loop_body_skips_without_query_iff [OF b n(2), of realpath_same myapp_config BOGUS]
    by (simp add: strstr_found_iff [symmetric] bracket_frame_def)
qed

text \<open>
  Claim C4 as stated has "starts with \<open><\<close>" where the code tests "contains \<open><\<close>": a
  name with \<open><\<close> in the middle starts with another character and contains neither of
  the two fragments, yet its frame is passed over without a query, although the filter
  would have accepted it.
\<close>

theorem loop_body_skips_bracket_inside_name:
  "frame_identifier bracket_frame = Some ''/home/u/myapp/a<b.py''
   \<and> \<not> prefix ''<'' ''/home/u/myapp/a<b.py''
   \<and> \<not> sublist ''/python'' ''/home/u/myapp/a<b.py''
   \<and> \<not> sublist ''scalene/scalene'' ''/home/u/myapp/a<b.py''
   \<and> loop_body realpath_same myapp_config BOGUS bracket_frame
       = (Continue (PyFrame_GetBack bracket_frame), [Decode (co_filename bracket_frame)])
   \<and> should_trace realpath_same myapp_config ''/home/u/myapp/a<b.py'' = Inr True"
  by (simp add: frame_identifier_def bracket_frame_def PyBytes_AsString_def loop_body_def
                should_trace_def myapp_config_def strstr_found_iff [symmetric])

section \<open>When the walk returns\<close>

lemma loop_body_empty_identifier:
  "frame_identifier fr = Some [] \<Longrightarrow>
   loop_body realpath cfg out fr = (Continue (Some fr), [Decode (co_filename fr)])"
  by (auto simp: frame_identifier_def loop_body_def)

lemma walk_returns_only_past_named_frames:
  assumes "walk realpath cfg out tr frame = Some y"
  shows "\<forall>fr. frame = Some fr \<longrightarrow> frame_identifier fr \<noteq> Some []"
proof (rule walk.raw_induct
    [where P = "\<lambda>rp c out tr frame y. \<forall>fr. frame = Some fr \<longrightarrow> frame_identifier fr \<noteq> Some []",
     OF _ assms])
  fix w :: "(string \<Rightarrow> string option) \<Rightarrow> TraceConfig \<Rightarrow> location \<Rightarrow> event list
     \<Rightarrow> PyFrameObject option \<Rightarrow> (result \<times> event list) option"
  fix rp c out tr frame y
  assume IH: "\<And>rp c out tr frame y. w rp c out tr frame = Some y
                \<Longrightarrow> \<forall>fr. frame = Some fr \<longrightarrow> frame_identifier fr \<noteq> Some []"
    and body: "(case frame of
        None \<Rightarrow> Some (Returned 0 out, tr)
      | Some fr \<Rightarrow>
          (case loop_body rp c out fr of
             (Done r, es) \<Rightarrow> Some (r, tr @ es)
           | (Continue next_frame, es) \<Rightarrow> w rp c out (tr @ es) next_frame)) = Some y"
  show "\<forall>fr. frame = Some fr \<longrightarrow> frame_identifier fr \<noteq> Some []"
  proof (intro allI impI notI)
    fix fr
    assume f: "frame = Some fr" and e: "frame_identifier fr = Some []"
    from body f loop_body_empty_identifier [OF e, of rp c out]
    have "w rp c out (tr @ [Decode (co_filename fr)]) (Some fr) = Some y"
      by simp
    from IH [OF this] e show False by simp
  qed
qed

text \<open>
  Claim C1 fails on the code. A frame whose file name is the empty string is not skipped
  to its caller: \<^verbatim>\<open>continue\<close> re-enters the loop with the same frame, and the walk
  never returns, whatever the filter, the file system and the rest of the chain are.
\<close>

theorem walk_never_returns_on_empty_identifier:
  assumes "frame_identifier fr = Some []"
  shows "walk realpath cfg out tr (Some fr) = None"
proof (cases "walk realpath cfg out tr (Some fr)")
  case None
  then show ?thesis .
next
  case (Some y)
  from walk_returns_only_past_named_frames [OF Some] assms show ?thesis by simp
qed

lemmas walk_eval = walk.simps loop_body_def frame_identifier_def PyBytes_AsString_def
  should_trace_def Let_def

theorem walk_never_returns_on_empty_identifier_witness:
  "frame_identifier unnamed_frame = Some []
   \<and> whereInPython realpath_same unnamed_runtime myapp_state caller_location = None"
proof -
  have e: "frame_identifier unnamed_frame = Some []"
    by (simp add: frame_identifier_def unnamed_frame_def PyBytes_AsString_def)
  show ?thesis
    using e walk_never_returns_on_empty_identifier [OF e, of realpath_same myapp_config BOGUS "[]"]
    by (simp add: whereInPython_def unnamed_runtime_def myapp_state_def getInstance_def)
qed

text \<open>
  Apart from such frames the walk is bounded by the depth of the stack: on a chain
  without an empty file name it returns after at most two trace events per frame.
\<close>

lemma loop_body_named_frame:
  assumes "frame_identifier fr \<noteq> Some []"
  shows "(\<exists>r es. loop_body realpath cfg out fr = (Done r, es) \<and> length es \<le> 2)
       \<or> (\<exists>es. loop_body realpath cfg out fr = (Continue (PyFrame_GetBack fr), es) \<and> length es \<le> 2)"
  using assms
  by (auto simp: frame_identifier_def loop_body_def Let_def split: option.splits sum.splits)

lemma walk_returns_on_named_chain:
  "\<forall>f \<in> set (chain fr). frame_identifier f \<noteq> Some [] \<Longrightarrow>
   \<exists>r es. walk realpath cfg out tr (Some fr) = Some (r, tr @ es) \<and> length es \<le> 2 * length (chain fr)"
proof (induction fr arbitrary: tr)
  case (Frame c l i b)
  let ?fr = "Frame c l i b"
  from Frame.prems have named: "frame_identifier ?fr \<noteq> Some []" by simp
  from loop_body_named_frame [OF named, of realpath cfg out]
  consider (returns) r es where "loop_body realpath cfg out ?fr = (Done r, es)" "length es \<le> 2"
    | (goes_on) es where "loop_body realpath cfg out ?fr = (Continue b, es)" "length es \<le> 2"
    by auto
  then show ?case
  proof cases
    case returns
    then show ?thesis by (subst walk.simps) auto
  next
    case goes_on
    show ?thesis
    proof (cases b)
      case None
      have "walk realpath cfg out (tr @ es) None = Some (Returned 0 out, tr @ es)"
        by (subst walk.simps) simp
      with goes_on None show ?thesis by (subst walk.simps) auto
    next
      case (Some caller)
      from Frame.prems Some have "\<forall>f \<in> set (chain caller). frame_identifier f \<noteq> Some []"
        by simp
      from Frame.IH [of caller "tr @ es", OF _ this] Some
      obtain r es' where
        w: "walk realpath cfg out (tr @ es) (Some caller) = Some (r, (tr @ es) @ es')"
        and l: "length es' \<le> 2 * length (chain caller)"
        by auto
      have "walk realpath cfg out tr (Some ?fr) = Some (r, tr @ (es @ es'))"
        using goes_on Some w by (subst walk.simps) simp
      moreover have "length (es @ es') \<le> 2 * length (chain ?fr)"
        using goes_on(2) l Some by simp
      ultimately show ?thesis by blast
    qed
  qed
qed

section \<open>The thread fallback\<close>

lemma findMain_loop_None: "(findMain_loop acc ts = None) = (acc = None \<and> ts = [])"
  by (induction ts arbitrary: acc) (auto split: option.splits)

lemma findMain_loop_min:
  "findMain_loop acc ts = Some m \<Longrightarrow>
   (m \<in> set ts \<or> acc = Some m)
   \<and> (\<forall>u \<in> set ts. thread_id m \<le> thread_id u)
   \<and> (\<forall>a. acc = Some a \<longrightarrow> thread_id m \<le> thread_id a)"
proof (induction ts arbitrary: acc)
  case Nil
  then show ?case by simp
next
  case (Cons t ts)
  let ?acc = "case acc of None \<Rightarrow> Some t
              | Some a \<Rightarrow> (if thread_id a > thread_id t then Some t else Some a)"
  from Cons.prems have "findMain_loop ?acc ts = Some m" by simp
  from Cons.IH [OF this] show ?case
    by (cases acc) (auto split: if_splits)
qed

text \<open>
  Claim C7, as amended. In an initialized interpreter, when the calling thread has no
  thread state or its thread state has no frame: with no interpreter thread at all the
  call returns 0 with the sentinel location; otherwise some thread whose identifier is the
  smallest of all is taken, and the call is the walk from that thread's current frame
  (with no filter installed it returns 0 with the sentinel before walking).
\<close>

theorem whereInPython_falls_back_to_smallest_thread_id:
  assumes init: "Py_IsInitialized rt"
    and noframe: "PyGILState_GetThisThreadState rt = None
                  \<or> (\<exists>ts. PyGILState_GetThisThreadState rt = Some ts \<and> thread_frame ts = None)"
  shows "(PyInterpreterState_ThreadHead rt = []
            \<longrightarrow> whereInPython realpath rt st out = Some (Returned 0 BOGUS, []))
       \<and> (PyInterpreterState_ThreadHead rt \<noteq> []
            \<longrightarrow> (\<exists>t \<in> set (PyInterpreterState_ThreadHead rt).
                    (\<forall>u \<in> set (PyInterpreterState_ThreadHead rt). thread_id t \<le> thread_id u)
                    \<and> whereInPython realpath rt st out
                        = (case getInstance st of
                             None \<Rightarrow> Some (Returned 0 BOGUS, [])
                           | Some traceConfig \<Rightarrow>
                               walk realpath traceConfig BOGUS [] (thread_frame t))))"
proof -
  let ?ts = "PyInterpreterState_ThreadHead rt"
  from noframe have nf:
    "(case PyGILState_GetThisThreadState rt of None \<Rightarrow> None | Some ts \<Rightarrow> thread_frame ts) = None"
    by auto
  have w: "whereInPython realpath rt st out
           = (case getInstance st of None \<Rightarrow> Some (Returned 0 BOGUS, [])
              | Some traceConfig \<Rightarrow> walk realpath traceConfig BOGUS [] (findMainPythonThread_frame rt))"
    using init nf by (simp add: whereInPython_def)
  have empty: "?ts = [] \<longrightarrow> whereInPython realpath rt st out = Some (Returned 0 BOGUS, [])"
  proof
    assume "?ts = []"
    then have "findMainPythonThread_frame rt = None"
      by (simp add: findMainPythonThread_frame_def)
    moreover have "\<And>c. walk realpath c BOGUS [] None = Some (Returned 0 BOGUS, [])"
      by (subst walk.simps) simp
    ultimately show "whereInPython realpath rt st out = Some (Returned 0 BOGUS, [])"
      using w by (simp split: option.splits)
  qed
  have nonempty: "?ts \<noteq> [] \<longrightarrow> (\<exists>t \<in> set ?ts.
                    (\<forall>u \<in> set ?ts. thread_id t \<le> thread_id u)
                    \<and> whereInPython realpath rt st out
                        = (case getInstance st of
                             None \<Rightarrow> Some (Returned 0 BOGUS, [])
                           | Some traceConfig \<Rightarrow>
                               walk realpath traceConfig BOGUS [] (thread_frame t)))"
  proof
    assume ne: "?ts \<noteq> []"
    then obtain m where m: "findMain_loop None ?ts = Some m"
      using findMain_loop_None [of None ?ts] by (cases "findMain_loop None ?ts") auto
    from findMain_loop_min [OF m] have "m \<in> set ?ts" "\<forall>u \<in> set ?ts. thread_id m \<le> thread_id u"
      by auto
    moreover from m have "findMainPythonThread_frame rt = thread_frame m"
      by (simp add: findMainPythonThread_frame_def)
    with w have "whereInPython realpath rt st out
                   = (case getInstance st of
                        None \<Rightarrow> Some (Returned 0 BOGUS, [])
                      | Some traceConfig \<Rightarrow>
                          walk realpath traceConfig BOGUS [] (thread_frame m))"
      by (cases "getInstance st") simp_all
    ultimately show "\<exists>t \<in> set ?ts.
                    (\<forall>u \<in> set ?ts. thread_id t \<le> thread_id u)
                    \<and> whereInPython realpath rt st out
                        = (case getInstance st of
                             None \<Rightarrow> Some (Returned 0 BOGUS, [])
                           | Some traceConfig \<Rightarrow>
                               walk realpath traceConfig BOGUS [] (thread_frame t))"
      by blast
  qed
  from empty nonempty show ?thesis by blast
qed

theorem whereInPython_falls_back_to_smallest_thread_id_witness:
  "Py_IsInitialized native_thread_runtime
   \<and> PyGILState_GetThisThreadState native_thread_runtime = None
   \<and> whereInPython realpath_same native_thread_runtime myapp_state caller_location
       = Some (Returned 1 \<lparr>filename = ''/home/u/myapp/worker.py'', lineno = 42, bytei = 6\<rparr>,
               [Decode (PyUnicode ''<frozen importlib>''),
                Decode (PyUnicode ''/usr/lib/python3.11/threading.py''),
                Decode (PyUnicode ''/home/u/myapp/worker.py''),
                Query ''/home/u/myapp/worker.py''])"
proof -
  have i: "Py_IsInitialized native_thread_runtime"
    and n: "PyGILState_GetThisThreadState native_thread_runtime = None"
    by (simp_all add: native_thread_runtime_def)
  have w: "walk realpath_same myapp_config BOGUS [] (Some worker_stack)
       = Some (Returned 1 \<lparr>filename = ''/home/u/myapp/worker.py'', lineno = 42, bytei = 6\<rparr>,
               [Decode (PyUnicode ''<frozen importlib>''),
                Decode (PyUnicode ''/usr/lib/python3.11/threading.py''),
                Decode (PyUnicode ''/home/u/myapp/worker.py''),
                Query ''/home/u/myapp/worker.py''])"
    by (simp add: walk_eval worker_stack_def myapp_config_def)
  show ?thesis
    using i n w
      whereInPython_falls_back_to_smallest_thread_id
        [OF i disjI1 [OF n], of realpath_same myapp_state caller_location]
    by (simp add: native_thread_runtime_def word_le_nat_alt myapp_state_def getInstance_def)
qed

text \<open>
  Claim C7 as stated covers every call whose thread has no current frame. When the
  interpreter is not initialized the calling thread has no frame and there is no thread
  to fall back to, yet the call returns before the sentinel is written and hands the
  caller's location back.
\<close>

theorem whereInPython_no_frame_uninitialized_not_sentinel:
  "PyGILState_GetThisThreadState finalized_runtime = None
   \<and> PyInterpreterState_ThreadHead finalized_runtime = []
   \<and> whereInPython realpath_fails finalized_runtime initial_state caller_location
       = Some (Returned 0 caller_location, [])
   \<and> filename caller_location \<noteq> filename BOGUS"
  by (simp add: whereInPython_def finalized_runtime_def caller_location_def BOGUS_def)

section \<open>Calls without an interpreter or without a filter\<close>

text \<open>
  Claim C5, as amended. When the interpreter is not initialized, every call returns 0,
  looks at no frame, and leaves the three output parameters as the caller passed them.
\<close>

theorem whereInPython_uninitialized_leaves_output:
  "\<not> Py_IsInitialized rt \<Longrightarrow> whereInPython realpath rt st out = Some (Returned 0 out, [])"
  by (simp add: whereInPython_def)

theorem whereInPython_uninitialized_leaves_output_witness:
  "\<not> Py_IsInitialized finalized_runtime
   \<and> whereInPython realpath_same finalized_runtime myapp_state BOGUS
       = Some (Returned 0 BOGUS, [])"
proof -
  have u: "\<not> Py_IsInitialized finalized_runtime"
    by (simp add: finalized_runtime_def)
  show ?thesis
    using u whereInPython_uninitialized_leaves_output
              [OF u, of realpath_same myapp_state BOGUS]
    by simp
qed

text \<open>
  Claim C5 as stated says the output is set to the sentinel. The return at the
  initialization test comes before the three assignments: a caller whose variables hold
  another location gets them back unchanged.
\<close>

theorem whereInPython_uninitialized_not_sentinel:
  "\<not> Py_IsInitialized finalized_runtime
   \<and> whereInPython realpath_same finalized_runtime myapp_state caller_location
       = Some (Returned 0 caller_location, [])
   \<and> caller_location \<noteq> BOGUS"
  by (simp add: whereInPython_def finalized_runtime_def caller_location_def BOGUS_def)

text \<open>
  Claim C9, as amended. With no filter installed every call returns 0 without decoding
  any frame's file name; the output is the sentinel when the interpreter is initialized,
  and is left as the caller passed it when it is not.
\<close>

theorem whereInPython_without_filter:
  "getInstance st = None \<Longrightarrow>
   whereInPython realpath rt st out
   = Some (Returned 0 (if Py_IsInitialized rt then BOGUS else out), [])"
  by (simp add: whereInPython_def Let_def)

theorem whereInPython_without_filter_witness:
  "getInstance initial_state = None
   \<and> whereInPython realpath_same native_thread_runtime initial_state caller_location
     = Some (Returned 0 BOGUS, [])
   \<and> whereInPython realpath_same unnamed_runtime initial_state caller_location
     = Some (Returned 0 BOGUS, [])"
proof -
  have n: "getInstance initial_state = None"
    by (simp add: getInstance_def initial_state_def)
  show ?thesis
    using n
      whereInPython_without_filter [OF n, of realpath_same native_thread_runtime caller_location]
      whereInPython_without_filter [OF n, of realpath_same unnamed_runtime caller_location]
    by (simp add: native_thread_runtime_def unnamed_runtime_def)
qed

text \<open>
  Claim C9 as stated says "every call". With no filter installed and the interpreter
  not initialized, the output is not the sentinel.
\<close>

theorem whereInPython_without_filter_not_sentinel:
  "getInstance initial_state = None
   \<and> whereInPython realpath_fails
       (native_thread_runtime\<lparr>Py_IsInitialized := False\<rparr>) initial_state
       \<lparr>filename = ''/home/u/myapp/worker.py'', lineno = 42, bytei = 6\<rparr>
     = Some (Returned 0 \<lparr>filename = ''/home/u/myapp/worker.py'', lineno = 42, bytei = 6\<rparr>, [])
   \<and> \<lparr>filename = ''/home/u/myapp/worker.py'', lineno = 42, bytei = 6\<rparr> \<noteq> BOGUS"
  by (simp add: whereInPython_def native_thread_runtime_def BOGUS_def getInstance_def
                initial_state_def)

section \<open>Registration\<close>



end
